theory Spec2Isabelle
  imports Main "HOL-Library.Word"
begin

section \<open>Python values, exceptions and the built-in byte constructors\<close>

text \<open>
  The library \<^verbatim>\<open>nihia.py\<close> builds MIDI messages as Python lists and hands them to
  \<^verbatim>\<open>device.midiOutSysex\<close> after converting them with \<^verbatim>\<open>bytes\<close> or \<^verbatim>\<open>bytearray\<close>.
  The exceptions the code can raise are the ones of these built-ins; each is a value here.
\<close>

datatype pyerror = TypeError | ValueError | IndexError | UnicodeEncodeError

text \<open>
  The values that occur in the lists given to \<^verbatim>\<open>bytes\<close>: an integer, \<^verbatim>\<open>None\<close> (what
  \<^verbatim>\<open>dict.get\<close> returns for a missing key) and a list of integers (the pair-valued entries
  of the \<^verbatim>\<open>buttons\<close> dictionary).
\<close>

datatype pyval = PyNone | PyInt int | PyList "int list"

type_synonym byte = "8 word"

text \<open>
  A Python \<^verbatim>\<open>str\<close> is a sequence of code points, here natural numbers, since the display
  text may hold code points above 255. Dictionary keys are plain ASCII names and are kept
  as \<^typ>\<open>string\<close>.
\<close>

type_synonym pystr = "nat list"

definition ord :: "nat \<Rightarrow> int" where
  "ord c = int c"

text \<open>
  \<^verbatim>\<open>bytes(iterable)\<close> walks the items in order: an item that is not an integer raises
  TypeError, an integer outside \<^verbatim>\<open>range(0, 256)\<close> raises ValueError.
\<close>

fun bytes :: "pyval list \<Rightarrow> pyerror + byte list" where
  "bytes [] = Inr []"
| "bytes (PyNone # xs) = Inl TypeError"
| "bytes (PyList l # xs) = Inl TypeError"
| "bytes (PyInt x # xs) =
     (if 0 \<le> x \<and> x < 256
      then (case bytes xs of Inl e \<Rightarrow> Inl e | Inr bs \<Rightarrow> Inr (word_of_int x # bs))
      else Inl ValueError)"

definition bytearray :: "pyval list \<Rightarrow> pyerror + byte list" where
  "bytearray xs = bytes xs"

text \<open>\<^verbatim>\<open>list(b)\<close> of a bytes object: its items as integers.\<close>

definition list_of_bytes :: "byte list \<Rightarrow> pyval list" where
  "list_of_bytes bs = map (\<lambda>b. PyInt (uint b)) bs"

text \<open>
  \<^verbatim>\<open>s.encode("UTF-8")\<close>: one to four bytes per code point; a surrogate code point raises
  UnicodeEncodeError. A Python string holds no code point above 0x10FFFF; the model
  gives the same error there.
\<close>

definition utf8_char :: "nat \<Rightarrow> byte list" where
  "utf8_char c =
     (if c < 0x80 then [of_nat c]
      else if c < 0x800 then [of_nat (0xC0 + c div 64), of_nat (0x80 + c mod 64)]
      else if c < 0x10000 then
        [of_nat (0xE0 + c div 4096), of_nat (0x80 + c div 64 mod 64), of_nat (0x80 + c mod 64)]
      else
        [of_nat (0xF0 + c div 262144), of_nat (0x80 + c div 4096 mod 64),
         of_nat (0x80 + c div 64 mod 64), of_nat (0x80 + c mod 64)])"

definition encodable :: "nat \<Rightarrow> bool" where
  "encodable c = (c < 0xD800 \<or> (0xDFFF < c \<and> c < 0x110000))"

fun encode_utf8 :: "pystr \<Rightarrow> pyerror + byte list" where
  "encode_utf8 [] = Inr []"
| "encode_utf8 (c # cs) =
     (if encodable c
      then (case encode_utf8 cs of Inl e \<Rightarrow> Inl e | Inr bs \<Rightarrow> Inr (utf8_char c @ bs))
      else Inl UnicodeEncodeError)"

text \<open>\<^verbatim>\<open>d.get(key)\<close>: the value stored under the key, \<^verbatim>\<open>None\<close> when there is none.\<close>

definition dict_get :: "('k \<times> pyval) list \<Rightarrow> 'k \<Rightarrow> pyval" where
  "dict_get d k = (case map_of d k of None \<Rightarrow> PyNone | Some v \<Rightarrow> v)"

section \<open>The transport\<close>

text \<open>
  \<^verbatim>\<open>device.midiOutSysex\<close> belongs to the host. The model keeps the messages it was given,
  oldest first; a function of the library takes this log and returns it with its outcome,
  \<open>Inl\<close> an exception that propagated, \<open>Inr ()\<close> a normal return.
\<close>

type_synonym device = "byte list list"

type_synonym outcome = "(pyerror + unit) \<times> device"

definition midiOutSysex :: "byte list \<Rightarrow> device \<Rightarrow> outcome" where
  "midiOutSysex msg dev = (Inr (), dev @ [msg])"

section \<open>The short control frame\<close>

definition buttons :: "(string \<times> pyval) list" where
  "buttons =
    [(''PLAY'', PyInt 16),
     (''RESTART'', PyInt 17),
     (''REC'', PyInt 18),
     (''COUNT_IN'', PyInt 19),
     (''STOP'', PyInt 20),
     (''CLEAR'', PyInt 21),
     (''LOOP'', PyInt 22),
     (''METRO'', PyInt 23),
     (''TEMPO'', PyInt 24),
     (''UNDO'', PyInt 32),
     (''REDO'', PyInt 33),
     (''QUANTIZE'', PyInt 34),
     (''AUTO'', PyInt 35),
     (''MUTE'', PyInt 67),
     (''SOLO'', PyInt 68),
     (''ENCODER_BUTTON'', PyInt 96),
     (''SHIFT+ENCODER_BUTTON'', PyInt 97),
     (''ENCODER_RIGHT'', PyList [50, 1]),
     (''ENCODER_LEFT'', PyList [50, 127]),
     (''ENCODER_UP'', PyList [48, 127]),
     (''ENCODER_DOWN'', PyList [48, 1]),
     (''ENCODER_PLUS'', PyList [52, 1]),
     (''ENCODER_MINUS'', PyList [52, 127]),
     (''ENCODER_HORIZONTAL'', PyInt 50),
     (''ENCODER_VERTICAL'', PyInt 48),
     (''ENCODER_SPIN'', PyInt 52)]"

text \<open>
  \<^verbatim>\<open>dataOut\<close> converts the list with \<^verbatim>\<open>bytearray\<close>, which may raise, and then calls the
  transport; \<^verbatim>\<open>bytes\<close> of a bytearray copies it and cannot fail.
\<close>

definition dataOut :: "pyval \<Rightarrow> pyval \<Rightarrow> device \<Rightarrow> outcome" where
  "dataOut data1 data2 dev =
     (let convertmsg = [PyInt 240, PyInt 191, data1, data2] in
      case bytearray convertmsg of
        Inl e \<Rightarrow> (Inl e, dev)
      | Inr msgtom32 \<Rightarrow> midiOutSysex msgtom32 dev)"

definition initiate :: "device \<Rightarrow> outcome" where
  "initiate dev = dataOut (PyInt 1) (PyInt 1) dev"

definition terminate :: "device \<Rightarrow> outcome" where
  "terminate dev = dataOut (PyInt 2) (PyInt 1) dev"

definition restartProtocol :: "device \<Rightarrow> outcome" where
  "restartProtocol dev =
     (case terminate dev of
        (Inl e, dev') \<Rightarrow> (Inl e, dev')
      | (Inr u, dev') \<Rightarrow> initiate dev')"

definition lightModes :: "(int \<times> pyval) list" where
  "lightModes = [(0, PyInt 0), (1, PyInt 1)]"

definition buttonSetLight :: "string \<Rightarrow> int \<Rightarrow> device \<Rightarrow> outcome" where
  "buttonSetLight buttonName lightMode dev =
     dataOut (dict_get buttons buttonName) (dict_get lightModes lightMode) dev"

section \<open>The display text\<close>

text \<open>
  The two \<^verbatim>\<open>while\<close> loops that fill \<^verbatim>\<open>lettersh\<close> differ in their bound only
  (\<^verbatim>\<open>len(letters)\<close> or 11). \<^verbatim>\<open>letters[n]\<close> raises IndexError out of range.
\<close>

function lettersh_loop :: "nat \<Rightarrow> nat \<Rightarrow> pystr \<Rightarrow> int list \<Rightarrow> pyerror + int list" where
  "lettersh_loop bound n letters lettersh =
     (if n < bound then
        (if n < length letters
         then lettersh_loop bound (Suc n) letters (lettersh @ [ord (letters ! n)])
         else Inl IndexError)
      else Inr lettersh)"
  by pat_completeness auto
termination
  by (relation "measure (\<lambda>(bound, n, letters, lettersh). bound - n)") auto

declare lettersh_loop.simps [simp del]

function header_loop :: "nat \<Rightarrow> int list \<Rightarrow> int list \<Rightarrow> int list" where
  "header_loop m lettersh header =
     (if m < length lettersh
      then header_loop (Suc m) lettersh (header @ [lettersh ! m])
      else header)"
  by pat_completeness auto
termination
  by (relation "measure (\<lambda>(m, lettersh, header). length lettersh - m)") auto

declare header_loop.simps [simp del]

text \<open>
  \<^verbatim>\<open>KPrntScrn(trkn, word, delaytime)\<close> never reads \<^verbatim>\<open>delaytime\<close>. The list \<^verbatim>\<open>header\<close>
  holds integers only, so \<^verbatim>\<open>bytes(header)\<close> can raise ValueError and nothing else.
\<close>

definition KPrntScrn :: "int \<Rightarrow> pystr \<Rightarrow> int \<Rightarrow> device \<Rightarrow> outcome" where
  "KPrntScrn trkn word delaytime dev =
     (let header = [240, 0, 33, 9, 0, 0, 68, 67, 1, 0, 72, 0];
          letters = word
      in case (if length letters \<le> 10
               then lettersh_loop (length letters) 0 letters []
               else lettersh_loop 11 0 letters []) of
           Inl e \<Rightarrow> (Inl e, dev)
         | Inr lettersh \<Rightarrow>
             (let header1 = header @ [trkn];
                  header2 = header_loop 0 lettersh header1;
                  header3 = header2 @ [247]
              in case bytes (map PyInt header3) of
                   Inl e \<Rightarrow> (Inl e, dev)
                 | Inr msg \<Rightarrow> midiOutSysex msg dev))"

section \<open>The mixer report\<close>

definition mixerinfo_types :: "(string \<times> pyval) list" where
  "mixerinfo_types =
    [(''VOLUME'', PyInt 70),
     (''PAN'', PyInt 71),
     (''IS_MUTE'', PyInt 67),
     (''IS_SOLO'', PyInt 68),
     (''NAME'', PyInt 72),
     (''EXIST'', PyInt 64),
     (''SELECTED'', PyInt 66)]"

text \<open>
  The keyword arguments the function reads: \<^verbatim>\<open>value\<close> (an integer, 0 when not given) and
  \<^verbatim>\<open>info\<close> (a string, \<^verbatim>\<open>None\<close> when not given).
\<close>

record kwargs =
  kw_value :: "int option"
  kw_info :: "pystr option"

text \<open>\<^verbatim>\<open>kwargs.get("value", 0)\<close> and \<^verbatim>\<open>kwargs.get("info", None)\<close>.\<close>

definition kwargs_get_value :: "kwargs \<Rightarrow> int" where
  "kwargs_get_value kw = (case kw_value kw of None \<Rightarrow> 0 | Some v \<Rightarrow> v)"

definition kwargs_get_info :: "kwargs \<Rightarrow> pystr option" where
  "kwargs_get_info kw = kw_info kw"

text \<open>
  With \<^verbatim>\<open>info\<close> given (the empty string too: the test is \<^verbatim>\<open>info != None\<close>) the text is
  encoded first, then the message is assembled and converted; without it the message is
  converted directly.
\<close>

definition mixerSendInfo :: "string \<Rightarrow> int \<Rightarrow> kwargs \<Rightarrow> device \<Rightarrow> outcome" where
  "mixerSendInfo info_type trackID kw dev =
     (let val = kwargs_get_value kw;
          info = kwargs_get_info kw
      in case info of
           Some s \<Rightarrow>
             (case encode_utf8 s of
                Inl e \<Rightarrow> (Inl e, dev)
              | Inr info' \<Rightarrow>
                  (let msg = [PyInt 240, PyInt 0, PyInt 33, PyInt 9, PyInt 0, PyInt 0, PyInt 68,
                              PyInt 67, PyInt 1, PyInt 0, dict_get mixerinfo_types info_type,
                              PyInt val, PyInt trackID] @ list_of_bytes info' @ [PyInt 247]
                   in case bytes msg of
                        Inl e \<Rightarrow> (Inl e, dev)
                      | Inr b \<Rightarrow> midiOutSysex b dev))
         | None \<Rightarrow>
             (case bytes [PyInt 240, PyInt 0, PyInt 33, PyInt 9, PyInt 0, PyInt 0, PyInt 68,
                          PyInt 67, PyInt 1, PyInt 0, dict_get mixerinfo_types info_type,
                          PyInt val, PyInt trackID, PyInt 247] of
                Inl e \<Rightarrow> (Inl e, dev)
              | Inr b \<Rightarrow> midiOutSysex b dev))"

section \<open>Facts about the loops and the byte constructor\<close>

lemma lettersh_loop_eq:
  "bound \<le> length letters \<Longrightarrow>
   lettersh_loop bound n letters lettersh = Inr (lettersh @ map ord (drop n (take bound letters)))"
proof (induction bound n letters lettersh rule: lettersh_loop.induct)
  case (1 bound n letters lettersh)
  show ?case
  proof (cases "n < bound")
    case True
    with "1.prems" have n: "n < length letters" by simp
    from True n have "drop n (take bound letters) = letters ! n # drop (Suc n) (take bound letters)"
      by (simp add: Cons_nth_drop_Suc [symmetric])
    with True n "1.IH" "1.prems" show ?thesis
      by (subst lettersh_loop.simps) simp
  next
    case False
    then show ?thesis
      by (subst lettersh_loop.simps) simp
  qed
qed

lemma header_loop_eq: "header_loop m lettersh header = header @ drop m lettersh"
proof (induction m lettersh header rule: header_loop.induct)
  case (1 m lettersh header)
  show ?case
  proof (cases "m < length lettersh")
    case True
    with "1.IH" show ?thesis
      by (subst header_loop.simps) (simp add: Cons_nth_drop_Suc)
  next
    case False
    then show ?thesis
      by (subst header_loop.simps) simp
  qed
qed

lemma bytes_append:
  "bytes (xs @ ys) =
     (case bytes xs of Inl e \<Rightarrow> Inl e
      | Inr bs \<Rightarrow> (case bytes ys of Inl e \<Rightarrow> Inl e | Inr cs \<Rightarrow> Inr (bs @ cs)))"
  by (induction xs rule: bytes.induct) (auto split: sum.splits)

lemma bytes_in_range:
  "list_all (\<lambda>x. 0 \<le> x \<and> x < 256) xs \<Longrightarrow> bytes (map PyInt xs) = Inr (map word_of_int xs)"
  by (induction xs) auto

lemma bytes_out_of_range:
  "\<not> list_all (\<lambda>x. 0 \<le> x \<and> x < 256) xs \<Longrightarrow> bytes (map PyInt xs) = Inl ValueError"
  by (induction xs) (auto split: sum.splits)

lemma bytes_list_of_bytes: "bytes (list_of_bytes bs) = Inr bs"
proof (induction bs)
  case Nil
  show ?case by (simp add: list_of_bytes_def)
next
  case (Cons b bs)
  have "uint b < 256" using uint_lt2p [of b] by simp
  with Cons show ?case by (simp add: list_of_bytes_def)
qed

lemma KPrntScrn_eq:
  "KPrntScrn trkn word delaytime dev =
     (case bytes (map PyInt ([240, 0, 33, 9, 0, 0, 68, 67, 1, 0, 72, 0] @ [trkn]
                              @ map ord (take 11 word) @ [247])) of
        Inl e \<Rightarrow> (Inl e, dev)
      | Inr msg \<Rightarrow> midiOutSysex msg dev)"
proof (cases "length word \<le> 10")
  case True
  then have "lettersh_loop (length word) 0 word [] = Inr (map ord (take 11 word))"
    by (simp add: lettersh_loop_eq)
  with True show ?thesis
    by (simp add: KPrntScrn_def header_loop_eq)
next
  case False
  then have "lettersh_loop 11 0 word [] = Inr (map ord (take 11 word))"
    by (simp add: lettersh_loop_eq)
  with False show ?thesis
    by (simp add: KPrntScrn_def header_loop_eq)
qed

lemma dataOut_ints:
  "0 \<le> d1 \<Longrightarrow> d1 < 256 \<Longrightarrow> 0 \<le> d2 \<Longrightarrow> d2 < 256 \<Longrightarrow>
   dataOut (PyInt d1) (PyInt d2) dev = (Inr (), dev @ [[240, 191, word_of_int d1, word_of_int d2]])"
  by (simp add: dataOut_def bytearray_def midiOutSysex_def)

lemma KPrntScrn_latin1:
  assumes "0 \<le> trkn" and "trkn < 256" and "list_all (\<lambda>c. c \<le> 255) (take 11 word)"
  shows "KPrntScrn trkn word delaytime dev =
         (Inr (), dev @ [[0xF0, 0x00, 0x21, 0x09, 0x00, 0x00, 0x44, 0x43, 0x01, 0x00, 0x48, 0x00]
                          @ [word_of_int trkn] @ map of_nat (take 11 word) @ [0xF7]])"
proof -
  let ?xs = "[240, 0, 33, 9, 0, 0, 68, 67, 1, 0, 72, 0] @ [trkn] @ map ord (take 11 word) @ [247]"
  from assms(3) have "list_all (\<lambda>x. 0 \<le> x \<and> x < 256) (map ord (take 11 word))"
    by (induction "take 11 word" arbitrary: word) (auto simp: list_all_iff ord_def)
  with assms(1,2) have "list_all (\<lambda>x. 0 \<le> x \<and> x < 256) ?xs"
    by simp
  then have "bytes (map PyInt ?xs) = Inr (map word_of_int ?xs)"
    by (rule bytes_in_range)
  then show ?thesis
    by (simp add: KPrntScrn_eq midiOutSysex_def ord_def comp_def)
qed

section \<open>The handshake\<close>

text \<open>
  Claim C6. \<^verbatim>\<open>restartProtocol\<close> hands exactly two frames to the transport, after whatever
  was sent before: the terminate frame \<open>F0 BF 02 01\<close> first, the initiate frame
  \<open>F0 BF 01 01\<close> right after it, and not in the reverse order. Each of \<^verbatim>\<open>terminate\<close> and
  \<^verbatim>\<open>initiate\<close> sends its own frame and returns normally.
\<close>

theorem restartProtocol_order:
  "terminate dev = (Inr (), dev @ [[0xF0, 0xBF, 0x02, 0x01]]) \<and>
   initiate dev = (Inr (), dev @ [[0xF0, 0xBF, 0x01, 0x01]]) \<and>
   restartProtocol dev = (Inr (), dev @ [[0xF0, 0xBF, 0x02, 0x01], [0xF0, 0xBF, 0x01, 0x01]]) \<and>
   restartProtocol dev \<noteq> (Inr (), dev @ [[0xF0, 0xBF, 0x01, 0x01], [0xF0, 0xBF, 0x02, 0x01]])"
  by (simp add: restartProtocol_def terminate_def initiate_def dataOut_ints)

section \<open>The display text frame\<close>

text \<open>
  Claim C5, amended. For a slot that is a byte and a text whose retained characters (the
  first 11) all have a code point of at most 255, \<^verbatim>\<open>KPrntScrn\<close> hands one frame to the
  transport: the 12-byte header \<open>F0 00 21 09 00 00 44 43 01 00 48 00\<close>, the slot byte, one
  byte per retained character holding its code point, and the terminator \<open>F7\<close>.
  The claim as written covers every text; a retained code point above 255 makes
  \<^verbatim>\<open>bytes\<close> raise ValueError instead, and nothing is sent.
\<close>

theorem KPrntScrn_frame:
  assumes "0 \<le> trkn" and "trkn < 256" and "\<forall>c \<in> set (take 11 word). c \<le> 255"
  shows "KPrntScrn trkn word delaytime dev =
         (Inr (), dev @ [[0xF0, 0x00, 0x21, 0x09, 0x00, 0x00, 0x44, 0x43, 0x01, 0x00, 0x48, 0x00]
                          @ [word_of_int trkn] @ map of_nat (take 11 word) @ [0xF7]])"
  using assms by (intro KPrntScrn_latin1) (simp_all add: list_all_iff)

text \<open>The text "Hi" in slot 5.\<close>

theorem KPrntScrn_frame_witness:
  "KPrntScrn 5 [72, 105] 0 [] =
     (Inr (), [[0xF0, 0x00, 0x21, 0x09, 0x00, 0x00, 0x44, 0x43, 0x01, 0x00, 0x48, 0x00,
                0x05, 0x48, 0x69, 0xF7]])"
  using KPrntScrn_frame [of 5 "[72, 105]" 0 "[]"] by simp

text \<open>The one-character text U+0100 in slot 0: no frame, ValueError.\<close>

theorem KPrntScrn_frame_counterexample:
  "KPrntScrn 0 [256] 0 [] = (Inl ValueError, [])"
  by (simp add: KPrntScrn_eq ord_def)

text \<open>
  Claim C1, amended. For a slot that is a byte and a text whose first 11 characters all
  have a code point of at most 255: a text of exactly 10 characters is encoded in full, a
  text of exactly 11 characters is encoded in full, and a text of 12 or more characters is
  encoded as its first 11 characters only, with a normal return. A text of 11 characters
  and any longer text that starts with it have the same outcome.
  The claim as written covers every text; the amendment is the bound on the code points.
\<close>

theorem KPrntScrn_truncation:
  assumes "0 \<le> trkn" and "trkn < 256" and "\<forall>c \<in> set (take 11 word). c \<le> 255"
  shows "(length word = 10 \<longrightarrow>
            KPrntScrn trkn word delaytime dev =
              (Inr (), dev @ [[0xF0, 0x00, 0x21, 0x09, 0x00, 0x00, 0x44, 0x43, 0x01, 0x00, 0x48, 0x00]
                               @ [word_of_int trkn] @ map of_nat word @ [0xF7]])) \<and>
         (length word = 11 \<longrightarrow>
            KPrntScrn trkn word delaytime dev =
              (Inr (), dev @ [[0xF0, 0x00, 0x21, 0x09, 0x00, 0x00, 0x44, 0x43, 0x01, 0x00, 0x48, 0x00]
                               @ [word_of_int trkn] @ map of_nat word @ [0xF7]])) \<and>
         (12 \<le> length word \<longrightarrow>
            KPrntScrn trkn word delaytime dev =
              (Inr (), dev @ [[0xF0, 0x00, 0x21, 0x09, 0x00, 0x00, 0x44, 0x43, 0x01, 0x00, 0x48, 0x00]
                               @ [word_of_int trkn] @ map of_nat (take 11 word) @ [0xF7]])) \<and>
         (length word = 11 \<longrightarrow>
            KPrntScrn trkn (word @ rest) delaytime dev = KPrntScrn trkn word delaytime dev)"
proof -
  from assms(3) have "list_all (\<lambda>c. c \<le> 255) (take 11 word)"
    by (simp add: list_all_iff)
  from KPrntScrn_latin1 [OF assms(1,2) this, of delaytime dev]
  show ?thesis
    by (auto simp: KPrntScrn_eq)
qed

text \<open>
  The texts "HELLOWORLD" (10 characters), "HELLOWORLD!" (11) and "HELLOWORLD!!" (12) in
  slot 0: the last two give the same frame.
\<close>

theorem KPrntScrn_truncation_witness:
  "KPrntScrn 0 [72, 69, 76, 76, 79, 87, 79, 82, 76, 68] 0 [] =
     (Inr (), [[0xF0, 0x00, 0x21, 0x09, 0x00, 0x00, 0x44, 0x43, 0x01, 0x00, 0x48, 0x00, 0x00,
                72, 69, 76, 76, 79, 87, 79, 82, 76, 68, 0xF7]]) \<and>
   KPrntScrn 0 [72, 69, 76, 76, 79, 87, 79, 82, 76, 68, 33] 0 [] =
     (Inr (), [[0xF0, 0x00, 0x21, 0x09, 0x00, 0x00, 0x44, 0x43, 0x01, 0x00, 0x48, 0x00, 0x00,
                72, 69, 76, 76, 79, 87, 79, 82, 76, 68, 33, 0xF7]]) \<and>
   KPrntScrn 0 [72, 69, 76, 76, 79, 87, 79, 82, 76, 68, 33, 33] 0 [] =
     (Inr (), [[0xF0, 0x00, 0x21, 0x09, 0x00, 0x00, 0x44, 0x43, 0x01, 0x00, 0x48, 0x00, 0x00,
                72, 69, 76, 76, 79, 87, 79, 82, 76, 68, 33, 0xF7]]) \<and>
   KPrntScrn 0 ([72, 69, 76, 76, 79, 87, 79, 82, 76, 68, 33] @ [33]) 0 [] =
     KPrntScrn 0 [72, 69, 76, 76, 79, 87, 79, 82, 76, 68, 33] 0 []"
proof (intro conjI)
  show "KPrntScrn 0 [72, 69, 76, 76, 79, 87, 79, 82, 76, 68] 0 [] =
     (Inr (), [[0xF0, 0x00, 0x21, 0x09, 0x00, 0x00, 0x44, 0x43, 0x01, 0x00, 0x48, 0x00, 0x00,
                72, 69, 76, 76, 79, 87, 79, 82, 76, 68, 0xF7]])"
    using KPrntScrn_truncation [of 0 "[72, 69, 76, 76, 79, 87, 79, 82, 76, 68]" 0 "[]" "[]"]
    by simp
  show "KPrntScrn 0 [72, 69, 76, 76, 79, 87, 79, 82, 76, 68, 33] 0 [] =
     (Inr (), [[0xF0, 0x00, 0x21, 0x09, 0x00, 0x00, 0x44, 0x43, 0x01, 0x00, 0x48, 0x00, 0x00,
                72, 69, 76, 76, 79, 87, 79, 82, 76, 68, 33, 0xF7]])"
    using KPrntScrn_truncation [of 0 "[72, 69, 76, 76, 79, 87, 79, 82, 76, 68, 33]" 0 "[]" "[]"]
    by simp
  show "KPrntScrn 0 [72, 69, 76, 76, 79, 87, 79, 82, 76, 68, 33, 33] 0 [] =
     (Inr (), [[0xF0, 0x00, 0x21, 0x09, 0x00, 0x00, 0x44, 0x43, 0x01, 0x00, 0x48, 0x00, 0x00,
                72, 69, 76, 76, 79, 87, 79, 82, 76, 68, 33, 0xF7]])"
    using KPrntScrn_truncation [of 0 "[72, 69, 76, 76, 79, 87, 79, 82, 76, 68, 33, 33]" 0 "[]" "[]"]
    by simp
  show "KPrntScrn 0 ([72, 69, 76, 76, 79, 87, 79, 82, 76, 68, 33] @ [33]) 0 [] =
     KPrntScrn 0 [72, 69, 76, 76, 79, 87, 79, 82, 76, 68, 33] 0 []"
    using KPrntScrn_truncation [of 0 "[72, 69, 76, 76, 79, 87, 79, 82, 76, 68, 33]" 0 "[]" "[33]"]
    by simp
qed

text \<open>A text of 10 characters whose first is U+0100, in slot 0: no frame, ValueError.\<close>

theorem KPrntScrn_truncation_counterexample:
  "KPrntScrn 0 [256, 69, 76, 76, 79, 87, 79, 82, 76, 68] 0 [] = (Inl ValueError, [])"
  by (simp add: KPrntScrn_eq ord_def)

text \<open>
  Claim C8, amended. For every text that has a code point above 255 among its retained
  characters (the first 11), and every slot, \<^verbatim>\<open>KPrntScrn\<close> fails with the ValueError of
  \<^verbatim>\<open>bytes\<close>, raised while the message is assembled: the transport is not called and
  holds what it held before.
  The claim as written covers a code point above 255 anywhere in the text; one that
  stands after the 11th character is cut off before \<^verbatim>\<open>bytes\<close> sees it, and the frame of
  the first 11 characters is sent.
\<close>

theorem KPrntScrn_non_latin1:
  assumes "\<exists>c \<in> set (take 11 word). 255 < c"
  shows "KPrntScrn trkn word delaytime dev = (Inl ValueError, dev)"
proof -
  let ?xs = "[240, 0, 33, 9, 0, 0, 68, 67, 1, 0, 72, 0] @ [trkn] @ map ord (take 11 word) @ [247]"
  from assms obtain c where c: "c \<in> set (take 11 word)" "255 < c"
    by blast
  then have "ord c \<in> set ?xs" and "\<not> ord c < 256"
    by (simp_all add: ord_def)
  then have "\<not> list_all (\<lambda>x. 0 \<le> x \<and> x < 256) ?xs"
    unfolding list_all_iff by blast
  then have "bytes (map PyInt ?xs) = Inl ValueError"
    by (rule bytes_out_of_range)
  then show ?thesis
    by (simp add: KPrntScrn_eq)
qed

text \<open>The text "K" followed by U+20AC, in slot 3.\<close>

theorem KPrntScrn_non_latin1_witness:
  "KPrntScrn 3 [75, 8364] 0 [] = (Inl ValueError, [])"
  using KPrntScrn_non_latin1 [of "[75, 8364]" 3 0 "[]"] by simp

text \<open>"HELLOWORLD!" followed by U+2603 as 12th character, in slot 0: a frame is sent.\<close>

theorem KPrntScrn_non_latin1_counterexample:
  "KPrntScrn 0 [72, 69, 76, 76, 79, 87, 79, 82, 76, 68, 33, 9731] 0 [] =
     (Inr (), [[0xF0, 0x00, 0x21, 0x09, 0x00, 0x00, 0x44, 0x43, 0x01, 0x00, 0x48, 0x00, 0x00,
                72, 69, 76, 76, 79, 87, 79, 82, 76, 68, 33, 0xF7]])"
  by (simp add: KPrntScrn_eq ord_def midiOutSysex_def)

section \<open>Facts about the tables and the mixer message\<close>

lemma buttons_int_range:
  "map_of buttons buttonName = Some (PyInt d) \<Longrightarrow> 0 \<le> d \<and> d < 256"
  by (drule map_of_SomeD) (auto simp: buttons_def)


lemma buttons_pairs:
  "buttonName \<in> {''ENCODER_RIGHT'', ''ENCODER_LEFT'', ''ENCODER_UP'', ''ENCODER_DOWN'',
                    ''ENCODER_PLUS'', ''ENCODER_MINUS''} \<Longrightarrow> \<exists>a b. map_of buttons buttonName = Some (PyList [a, b])"
  by (auto simp: buttons_def)


lemma mixerinfo_types_entries:
  "map_of mixerinfo_types info_type = Some v \<Longrightarrow> \<exists>i. v = PyInt i \<and> 0 \<le> i \<and> i < 256"
  by (drule map_of_SomeD) (auto simp: mixerinfo_types_def)

lemma dataOut_not_int:
  "dataOut PyNone data2 dev = (Inl TypeError, dev)"
  "dataOut (PyList l) data2 dev = (Inl TypeError, dev)"
  by (simp_all add: dataOut_def bytearray_def)

lemma lightModes_get:
  "lightMode = 0 \<or> lightMode = 1 \<Longrightarrow> dict_get lightModes lightMode = PyInt lightMode"
  by (auto simp: dict_get_def lightModes_def)

lemma encode_utf8_encodable:
  "list_all encodable s \<Longrightarrow> encode_utf8 s = Inr (concat (map utf8_char s))"
  by (induction s) auto

lemma encode_utf8_error:
  "encode_utf8 s = Inl e \<Longrightarrow> e = UnicodeEncodeError"
  by (induction s) (auto split: if_splits sum.splits)

lemma encode_utf8_not_encodable:
  "\<not> list_all encodable s \<Longrightarrow> encode_utf8 s = Inl UnicodeEncodeError"
  by (induction s) (auto split: sum.splits)


lemma mixerSendInfo_text:
  assumes "map_of mixerinfo_types info_type = Some (PyInt i)"
    and "0 \<le> trackID" and "trackID < 256"
    and "0 \<le> kwargs_get_value kw" and "kwargs_get_value kw < 256"
    and "kwargs_get_info kw = Some s" and "list_all encodable s"
  shows "mixerSendInfo info_type trackID kw dev =
         (Inr (), dev @ [[0xF0, 0x00, 0x21, 0x09, 0x00, 0x00, 0x44, 0x43, 0x01, 0x00,
                          word_of_int i, word_of_int (kwargs_get_value kw), word_of_int trackID]
                         @ concat (map utf8_char s) @ [0xF7]])"
proof -
  from assms(1) have "0 \<le> i" and "i < 256"
    using mixerinfo_types_entries by blast+
  moreover from assms(1) have "dict_get mixerinfo_types info_type = PyInt i"
    by (simp add: dict_get_def)
  moreover from assms(7) have "encode_utf8 s = Inr (concat (map utf8_char s))"
    by (rule encode_utf8_encodable)
  moreover have "bytes (list_of_bytes (concat (map utf8_char s)) @ [PyInt 247]) =
                 Inr (concat (map utf8_char s) @ [247])"
    by (simp add: bytes_append bytes_list_of_bytes)
  ultimately show ?thesis
    using assms(2-6) by (simp add: mixerSendInfo_def midiOutSysex_def)
qed

lemma mixerSendInfo_unknown:
  assumes "map_of mixerinfo_types info_type = None"
  shows "mixerSendInfo info_type trackID kw dev =
         (Inl (case kwargs_get_info kw of None \<Rightarrow> TypeError
               | Some s \<Rightarrow> (case encode_utf8 s of Inl e \<Rightarrow> e | Inr u \<Rightarrow> TypeError)), dev)"
  using assms by (simp add: mixerSendInfo_def dict_get_def split: option.splits sum.splits)

section \<open>The button lights\<close>

text \<open>
  Claim C7, amended. For every button name whose entry in \<^verbatim>\<open>buttons\<close> is a single
  integer (every entry but the six encoder motions) and every light mode in {0, 1},
  \<^verbatim>\<open>buttonSetLight\<close> hands exactly the frame \<open>F0 BF data1 data2\<close> to the transport,
  \<open>data1\<close> the table value of the name and \<open>data2\<close> the light mode itself.
  The claim as written covers every name in the table; for the six names whose entry is
  a pair the function raises TypeError and sends nothing.
\<close>

theorem buttonSetLight_frame:
  assumes "map_of buttons buttonName = Some (PyInt data1)"
    and "lightMode = 0 \<or> lightMode = 1"
  shows "buttonSetLight buttonName lightMode dev =
         (Inr (), dev @ [[0xF0, 0xBF, word_of_int data1, word_of_int lightMode]])"
proof -
  from assms(1) have "0 \<le> data1" and "data1 < 256"
    using buttons_int_range by blast+
  moreover from assms(2) have "0 \<le> lightMode" and "lightMode < 256"
    by auto
  moreover from assms(1) have "dict_get buttons buttonName = PyInt data1"
    by (simp add: dict_get_def)
  moreover from assms(2) have "dict_get lightModes lightMode = PyInt lightMode"
    by (rule lightModes_get)
  ultimately show ?thesis
    by (simp add: buttonSetLight_def dataOut_ints)
qed

text \<open>
  The PLAY button, light mode 1.
\<close>

theorem buttonSetLight_frame_witness:
  "buttonSetLight ''PLAY'' 1 [] = (Inr (), [[0xF0, 0xBF, 0x10, 0x01]])"
  using buttonSetLight_frame [of "''PLAY''" 16 1 "[]"] by (simp add: buttons_def)

text \<open>
  ENCODER_RIGHT is in the table, with the pair [50, 1]: no frame, TypeError.
\<close>

theorem buttonSetLight_frame_counterexample:
  "map_of buttons ''ENCODER_RIGHT'' = Some (PyList [50, 1]) \<and>
   buttonSetLight ''ENCODER_RIGHT'' 1 [] = (Inl TypeError, [])"
  by (simp add: buttons_def buttonSetLight_def dict_get_def dataOut_not_int)

text \<open>
  Claim C9. For each of the six encoder motions, whose entry in \<^verbatim>\<open>buttons\<close> is a list of
  two integers, and every light mode in {0, 1}, \<^verbatim>\<open>buttonSetLight\<close> produces no frame:
  \<^verbatim>\<open>bytearray\<close> rejects the list in the place of \<open>data1\<close> with TypeError, and the
  transport holds what it held before.
\<close>

theorem buttonSetLight_encoder_motion:
  assumes "buttonName \<in> {''ENCODER_RIGHT'', ''ENCODER_LEFT'', ''ENCODER_UP'', ''ENCODER_DOWN'',
                           ''ENCODER_PLUS'', ''ENCODER_MINUS''}"
    and "lightMode = 0 \<or> lightMode = 1"
  shows "(\<exists>a b. map_of buttons buttonName = Some (PyList [a, b])) \<and>
         buttonSetLight buttonName lightMode dev = (Inl TypeError, dev)"
proof -
  from assms(1) obtain a b where "map_of buttons buttonName = Some (PyList [a, b])"
    using buttons_pairs by blast
  then show ?thesis
    by (simp add: buttonSetLight_def dict_get_def dataOut_not_int)
qed

text \<open>
  ENCODER_LEFT, light mode 0.
\<close>

theorem buttonSetLight_encoder_motion_witness:
  "map_of buttons ''ENCODER_LEFT'' = Some (PyList [50, 127]) \<and>
   buttonSetLight ''ENCODER_LEFT'' 0 [] = (Inl TypeError, [])"
  using buttonSetLight_encoder_motion [of "''ENCODER_LEFT''" 0 "[]"] by (simp add: buttons_def)


section \<open>Unknown identifiers\<close>

text \<open>
  Claim C2, amended. A button name that is not in \<^verbatim>\<open>buttons\<close> makes \<^verbatim>\<open>buttonSetLight\<close>
  fail, and a kind that is not in \<^verbatim>\<open>mixerinfo_types\<close> makes \<^verbatim>\<open>mixerSendInfo\<close> fail, in
  both cases before the transport is called: no frame with an empty identifier is sent.
  \<^verbatim>\<open>dict.get\<close> returns \<^verbatim>\<open>None\<close>, and \<^verbatim>\<open>bytearray\<close> or \<^verbatim>\<open>bytes\<close> raises TypeError on it;
  this TypeError is the error the specification calls UnknownIdentifier. The error is the
  TypeError for every button request and for every mixer request without text or with a
  text that can be encoded; a mixer request whose text holds a surrogate code point fails
  earlier, with the UnicodeEncodeError of \<^verbatim>\<open>encode\<close>.
  The claim as written gives the one error for every request.
\<close>

theorem unknown_identifier_fails:
  "(map_of buttons buttonName = None \<longrightarrow>
      buttonSetLight buttonName lightMode dev = (Inl TypeError, dev)) \<and>
   (map_of mixerinfo_types info_type = None \<longrightarrow>
      mixerSendInfo info_type trackID \<lparr>kw_value = vo, kw_info = None\<rparr> dev =
        (Inl TypeError, dev) \<and>
      mixerSendInfo info_type trackID \<lparr>kw_value = vo, kw_info = Some s\<rparr> dev =
        (Inl (if list_all encodable s then TypeError else UnicodeEncodeError), dev))"
proof (intro conjI impI)
  assume "map_of buttons buttonName = None"
  then show "buttonSetLight buttonName lightMode dev = (Inl TypeError, dev)"
    by (simp add: buttonSetLight_def dict_get_def dataOut_not_int)
next
  assume "map_of mixerinfo_types info_type = None"
  then show "mixerSendInfo info_type trackID \<lparr>kw_value = vo, kw_info = None\<rparr> dev =
        (Inl TypeError, dev)"
    by (simp add: mixerSendInfo_unknown kwargs_get_info_def)
next
  assume unknown: "map_of mixerinfo_types info_type = None"
  show "mixerSendInfo info_type trackID \<lparr>kw_value = vo, kw_info = Some s\<rparr> dev =
        (Inl (if list_all encodable s then TypeError else UnicodeEncodeError), dev)"
  proof (cases "list_all encodable s")
    case True
    with unknown show ?thesis
      by (simp add: mixerSendInfo_unknown kwargs_get_info_def encode_utf8_encodable)
  next
    case False
    with unknown show ?thesis
      by (simp add: mixerSendInfo_unknown kwargs_get_info_def encode_utf8_not_encodable)
  qed
qed

text \<open>
  SHIFT is not a button of the table; MUTE, TITLE and PITCH are not kinds of mixer
  information. The last text holds the surrogate U+DC00.
\<close>

theorem unknown_identifier_fails_witness:
  "buttonSetLight ''SHIFT'' 1 [] = (Inl TypeError, []) \<and>
   mixerSendInfo ''MUTE'' 3 \<lparr>kw_value = Some 1, kw_info = None\<rparr> [] = (Inl TypeError, []) \<and>
   mixerSendInfo ''TITLE'' 2 \<lparr>kw_value = None, kw_info = Some [75, 105, 99, 107]\<rparr> [] =
     (Inl TypeError, []) \<and>
   mixerSendInfo ''PITCH'' 1 \<lparr>kw_value = None, kw_info = Some [75, 0xDC00]\<rparr> [] =
     (Inl UnicodeEncodeError, [])"
proof (intro conjI)
  show "buttonSetLight ''SHIFT'' 1 [] = (Inl TypeError, [])"
    using unknown_identifier_fails [where buttonName = "''SHIFT''" and lightMode = 1 and dev = "[]"]
    by (simp add: buttons_def)
  show "mixerSendInfo ''MUTE'' 3 \<lparr>kw_value = Some 1, kw_info = None\<rparr> [] = (Inl TypeError, [])"
    using unknown_identifier_fails [where info_type = "''MUTE''" and trackID = 3
        and vo = "Some 1" and dev = "[]"]
    by (simp add: mixerinfo_types_def)
  show "mixerSendInfo ''TITLE'' 2 \<lparr>kw_value = None, kw_info = Some [75, 105, 99, 107]\<rparr> [] =
     (Inl TypeError, [])"
    using unknown_identifier_fails [where info_type = "''TITLE''" and trackID = 2
        and vo = None and s = "[75, 105, 99, 107]" and dev = "[]"]
    by (simp add: mixerinfo_types_def encodable_def)
  show "mixerSendInfo ''PITCH'' 1 \<lparr>kw_value = None, kw_info = Some [75, 0xDC00]\<rparr> [] =
     (Inl UnicodeEncodeError, [])"
    using unknown_identifier_fails [where info_type = "''PITCH''" and trackID = 1
        and vo = None and s = "[75, 0xDC00]" and dev = "[]"]
    by (simp add: mixerinfo_types_def encodable_def)
qed

text \<open>
  The kind BOGUS with the one-character text U+D800: the error is not the TypeError.
\<close>

theorem unknown_identifier_fails_counterexample:
  "map_of mixerinfo_types ''BOGUS'' = None \<and>
   mixerSendInfo ''BOGUS'' 0 \<lparr>kw_value = None, kw_info = Some [0xD800]\<rparr> [] =
     (Inl UnicodeEncodeError, [])"
  by (simp add: mixerinfo_types_def mixerSendInfo_def kwargs_get_info_def kwargs_get_value_def
        encodable_def)


section \<open>The mixer report frames\<close>



text \<open>
  Claim C4, amended. For every kind in \<^verbatim>\<open>mixerinfo_types\<close>, every track byte, every value
  byte and every text \<^verbatim>\<open>info\<close> without a surrogate code point (U+D800 to U+DFFF),
  \<^verbatim>\<open>mixerSendInfo\<close> hands exactly this frame to the transport: the ten header bytes, the
  identifier byte, the value the caller gave (0 when none was given), the track, then the
  UTF-8 bytes of the text (not one byte per code point), then \<open>F7\<close>.
  The claim as written covers every text; on a surrogate code point \<^verbatim>\<open>encode\<close> raises
  UnicodeEncodeError and nothing is sent.
\<close>

theorem mixerSendInfo_text_frame:
  assumes "map_of mixerinfo_types info_type = Some (PyInt identifierByte)"
    and "0 \<le> trackID" and "trackID < 256"
    and "0 \<le> v" and "v < 256"
    and "\<forall>c \<in> set s. encodable c"
  shows "mixerSendInfo info_type trackID \<lparr>kw_value = Some v, kw_info = Some s\<rparr> dev =
           (Inr (), dev @ [[0xF0, 0x00, 0x21, 0x09, 0x00, 0x00, 0x44, 0x43, 0x01, 0x00,
                            word_of_int identifierByte, word_of_int v, word_of_int trackID]
                           @ concat (map utf8_char s) @ [0xF7]]) \<and>
         mixerSendInfo info_type trackID \<lparr>kw_value = None, kw_info = Some s\<rparr> dev =
           (Inr (), dev @ [[0xF0, 0x00, 0x21, 0x09, 0x00, 0x00, 0x44, 0x43, 0x01, 0x00,
                            word_of_int identifierByte, 0x00, word_of_int trackID]
                           @ concat (map utf8_char s) @ [0xF7]])"
proof -
  from assms(6) have enc: "list_all encodable s"
    by (simp add: list_all_iff)
  have "mixerSendInfo info_type trackID \<lparr>kw_value = Some v, kw_info = Some s\<rparr> dev =
           (Inr (), dev @ [[0xF0, 0x00, 0x21, 0x09, 0x00, 0x00, 0x44, 0x43, 0x01, 0x00,
                            word_of_int identifierByte, word_of_int v, word_of_int trackID]
                           @ concat (map utf8_char s) @ [0xF7]])"
    using assms(1-5) enc
      mixerSendInfo_text [of info_type identifierByte trackID
                             "\<lparr>kw_value = Some v, kw_info = Some s\<rparr>" s dev]
    by (simp add: kwargs_get_value_def kwargs_get_info_def)
  moreover
  have "mixerSendInfo info_type trackID \<lparr>kw_value = None, kw_info = Some s\<rparr> dev =
           (Inr (), dev @ [[0xF0, 0x00, 0x21, 0x09, 0x00, 0x00, 0x44, 0x43, 0x01, 0x00,
                            word_of_int identifierByte, 0x00, word_of_int trackID]
                           @ concat (map utf8_char s) @ [0xF7]])"
    using assms(1-3) enc
      mixerSendInfo_text [of info_type identifierByte trackID
                             "\<lparr>kw_value = None, kw_info = Some s\<rparr>" s dev]
    by (simp add: kwargs_get_value_def kwargs_get_info_def)
  ultimately show ?thesis by (rule conjI)
qed

text \<open>
  \<^verbatim>\<open>mixerSendInfo("NAME", 2, info="Kick")\<close>, and the kind VOLUME with value 1 and a text of
  U+00E9 and U+20AC, whose UTF-8 bytes are \<open>C3 A9\<close> and \<open>E2 82 AC\<close>.
\<close>

theorem mixerSendInfo_text_frame_witness:
  "mixerSendInfo ''NAME'' 2 \<lparr>kw_value = None, kw_info = Some [75, 105, 99, 107]\<rparr> [] =
     (Inr (), [[0xF0, 0x00, 0x21, 0x09, 0x00, 0x00, 0x44, 0x43, 0x01, 0x00, 0x48, 0x00, 0x02,
                0x4B, 0x69, 0x63, 0x6B, 0xF7]]) \<and>
   mixerSendInfo ''VOLUME'' 7 \<lparr>kw_value = Some 1, kw_info = Some [233, 8364]\<rparr> [] =
     (Inr (), [[0xF0, 0x00, 0x21, 0x09, 0x00, 0x00, 0x44, 0x43, 0x01, 0x00, 0x46, 0x01, 0x07,
                0xC3, 0xA9, 0xE2, 0x82, 0xAC, 0xF7]])"
proof (intro conjI)
  show "mixerSendInfo ''NAME'' 2 \<lparr>kw_value = None, kw_info = Some [75, 105, 99, 107]\<rparr> [] =
     (Inr (), [[0xF0, 0x00, 0x21, 0x09, 0x00, 0x00, 0x44, 0x43, 0x01, 0x00, 0x48, 0x00, 0x02,
                0x4B, 0x69, 0x63, 0x6B, 0xF7]])"
    using mixerSendInfo_text_frame [of "''NAME''" 72 2 0 "[75, 105, 99, 107]" "[]"]
    by (simp add: mixerinfo_types_def encodable_def utf8_char_def)
  show "mixerSendInfo ''VOLUME'' 7 \<lparr>kw_value = Some 1, kw_info = Some [233, 8364]\<rparr> [] =
     (Inr (), [[0xF0, 0x00, 0x21, 0x09, 0x00, 0x00, 0x44, 0x43, 0x01, 0x00, 0x46, 0x01, 0x07,
                0xC3, 0xA9, 0xE2, 0x82, 0xAC, 0xF7]])"
    using mixerSendInfo_text_frame [of "''VOLUME''" 70 7 1 "[233, 8364]" "[]"]
    by (simp add: mixerinfo_types_def encodable_def utf8_char_def)
qed

text \<open>
  The kind NAME with the text "K" followed by the surrogate U+DFFF: no frame.
\<close>

theorem mixerSendInfo_text_frame_counterexample:
  "map_of mixerinfo_types ''NAME'' = Some (PyInt 72) \<and>
   mixerSendInfo ''NAME'' 2 \<lparr>kw_value = Some 1, kw_info = Some [75, 0xDFFF]\<rparr> [] =
     (Inl UnicodeEncodeError, [])"
  by (simp add: mixerinfo_types_def mixerSendInfo_def kwargs_get_info_def kwargs_get_value_def
        encodable_def)



end
